theory Spec2Isabelle
  imports Main "HOL-Library.AList"
begin

section \<open>JSON values and the JavaScript operators the handlers rely on\<close>

text \<open>
  The service (\<^verbatim>\<open>backend-auth-simple.js\<close>) keeps its accounts as plain JavaScript
  objects inside one JSON array file. A value that went through \<^verbatim>\<open>JSON.parse\<close> is one of
  the six JSON shapes below. An object is an association list read with \<open>map_of\<close>
  (\<^verbatim>\<open>JSON.parse\<close> delivers distinct keys); a property that is absent reads as
  \<^verbatim>\<open>undefined\<close>, which is \<open>None\<close>. A number is a double whose value is an
  integer, held as that integer: the byte counters of the service are integers. A string
  is held as its UTF-8 bytes.
\<close>

datatype json =
    JNull
  | JBool bool
  | JNum int
  | JStr string
  | JArr "json list"
  | JObj "(string \<times> json) list"

type_synonym obj = "(string \<times> json) list"

text \<open>\<^verbatim>\<open>u.key\<close>: reading a property of an object.\<close>

definition get_prop :: "obj \<Rightarrow> string \<Rightarrow> json option" where
  "get_prop u k = map_of u k"

text \<open>\<^verbatim>\<open>u[key] = v\<close>: an existing key keeps its place, a new key goes last.\<close>

definition set_prop :: "string \<Rightarrow> json \<Rightarrow> obj \<Rightarrow> obj" where
  "set_prop k v u = AList.update k v u"

text \<open>The truth value JavaScript gives a value in \<^verbatim>\<open>if (x)\<close> and \<^verbatim>\<open>!x\<close>.\<close>

fun truthy :: "json option \<Rightarrow> bool" where
  "truthy None = False"
| "truthy (Some JNull) = False"
| "truthy (Some (JBool b)) = b"
| "truthy (Some (JNum n)) = (n \<noteq> 0)"
| "truthy (Some (JStr s)) = (s \<noteq> [])"
| "truthy (Some (JArr xs)) = True"
| "truthy (Some (JObj kvs)) = True"

text \<open>
  \<^verbatim>\<open>a === b\<close>. Primitives are compared by value. Arrays and objects are compared by
  reference, and the two operands of every comparison in the service come from two
  different \<^verbatim>\<open>JSON.parse\<close> calls (the file, the request body, the token), so an array or
  an object is never equal to anything.
\<close>

fun strict_eq :: "json option \<Rightarrow> json option \<Rightarrow> bool" where
  "strict_eq None None = True"
| "strict_eq (Some (JArr xs)) b = False"
| "strict_eq (Some (JObj kvs)) b = False"
| "strict_eq (Some a) (Some b) = (a = b)"
| "strict_eq a b = False"


subsection \<open>Numbers, \<^verbatim>\<open>parseInt\<close>, \<^verbatim>\<open>+\<close> and \<^verbatim>\<open>>\<close>\<close>

text \<open>
  The values of JavaScript's numbers that the handlers can meet: an integer that a double
  holds, \<^verbatim>\<open>NaN\<close>, and the two infinities.
\<close>

datatype number = Num int | NaN | PosInfinity | NegInfinity

text \<open>What \<^verbatim>\<open>+\<close> can return: a number, or a string when it concatenates.\<close>

datatype prim = Number number | Str string

function bit_length :: "nat \<Rightarrow> nat" where
  "bit_length n = (if n = 0 then 0 else Suc (bit_length (n div 2)))"
  by pat_completeness auto
termination
  by (relation "measure id") auto

declare bit_length.simps [simp del]

text \<open>
  The double nearest to an integer, ties going to the even significand of 53 bits, and
  an infinity from \<open>2 ^ 1024\<close> on: what the runtime makes of an integer result that a
  double cannot hold. Up to \<open>2 ^ 53\<close> every integer is a double.
\<close>

definition to_double :: "int \<Rightarrow> number" where
  "to_double n =
     (let m = nat \<bar>n\<bar> in
      if m < 9007199254740992 then Num n
      else
        (let e = bit_length m - 53;
             q = m div 2 ^ e;
             r = m mod 2 ^ e;
             q' = (if 2 ^ e < 2 * r \<or> (2 * r = 2 ^ e \<and> odd q) then q + 1 else q);
             v = q' * 2 ^ e
         in if 2 ^ 1024 \<le> v then (if n < 0 then NegInfinity else PosInfinity)
            else Num (if n < 0 then - int v else int v)))"

definition digit_char :: "nat \<Rightarrow> char" where
  "digit_char d = ''0123456789'' ! d"

function show_nat :: "nat \<Rightarrow> string" where
  "show_nat n = (if n < 10 then [digit_char n] else show_nat (n div 10) @ [digit_char (n mod 10)])"
  by pat_completeness auto
termination
  by (relation "measure id") auto

declare show_nat.simps [simp del]

definition show_int :: "int \<Rightarrow> string" where
  "show_int i = (if i < 0 then CHR ''-'' # show_nat (nat (- i)) else show_nat (nat i))"

text \<open>
  \<^verbatim>\<open>String(x)\<close> of a number. Up to \<open>2 ^ 53\<close> it is the decimal digits of the
  integer. Above, the runtime prints the shortest digits that read back as the same
  double, in exponent notation from \<open>10 ^ 21\<close> on; that printing is not part of the
  repository and is the parameter \<open>big\<close>.
\<close>

definition number_to_string :: "(int \<Rightarrow> string) \<Rightarrow> number \<Rightarrow> string" where
  "number_to_string big x =
     (case x of
        Num i \<Rightarrow> (if \<bar>i\<bar> \<le> 9007199254740992 then show_int i else big i)
      | NaN \<Rightarrow> ''NaN''
      | PosInfinity \<Rightarrow> ''Infinity''
      | NegInfinity \<Rightarrow> ''-Infinity'')"

fun join_comma :: "string list \<Rightarrow> string" where
  "join_comma [] = []"
| "join_comma [s] = s"
| "join_comma (s # t # ts) = s @ '','' @ join_comma (t # ts)"

text \<open>
  \<^verbatim>\<open>String(v)\<close> of a JSON value: an array joins its elements with commas,
  \<^verbatim>\<open>null\<close> elements contributing nothing; an object is \<^verbatim>\<open>[object Object]\<close>.
\<close>

fun to_string :: "(int \<Rightarrow> string) \<Rightarrow> json \<Rightarrow> string" where
  "to_string big JNull = ''null''"
| "to_string big (JBool b) = (if b then ''true'' else ''false'')"
| "to_string big (JNum i) = number_to_string big (Num i)"
| "to_string big (JStr s) = s"
| "to_string big (JArr xs) = join_comma (map (\<lambda>x. if x = JNull then [] else to_string big x) xs)"
| "to_string big (JObj kvs) = ''[object Object]''"

text \<open>
  The white space \<^verbatim>\<open>parseInt\<close> skips, each character as its UTF-8 bytes: tab, line
  feed, vertical tab, form feed, carriage return, space, U+00A0, U+1680, U+2000 to U+200A,
  U+2028, U+2029, U+202F, U+205F, U+3000 and U+FEFF.
\<close>

definition white_space :: "string list" where
  "white_space =
     [[CHR 0x09], [CHR 0x0A], [CHR 0x0B], [CHR 0x0C], [CHR 0x0D], [CHR 0x20],
      [CHR 0xC2, CHR 0xA0],
      [CHR 0xE1, CHR 0x9A, CHR 0x80],
      [CHR 0xE2, CHR 0x80, CHR 0x80], [CHR 0xE2, CHR 0x80, CHR 0x81], [CHR 0xE2, CHR 0x80, CHR 0x82],
      [CHR 0xE2, CHR 0x80, CHR 0x83], [CHR 0xE2, CHR 0x80, CHR 0x84], [CHR 0xE2, CHR 0x80, CHR 0x85],
      [CHR 0xE2, CHR 0x80, CHR 0x86], [CHR 0xE2, CHR 0x80, CHR 0x87], [CHR 0xE2, CHR 0x80, CHR 0x88],
      [CHR 0xE2, CHR 0x80, CHR 0x89], [CHR 0xE2, CHR 0x80, CHR 0x8A],
      [CHR 0xE2, CHR 0x80, CHR 0xA8], [CHR 0xE2, CHR 0x80, CHR 0xA9], [CHR 0xE2, CHR 0x80, CHR 0xAF],
      [CHR 0xE2, CHR 0x81, CHR 0x9F],
      [CHR 0xE3, CHR 0x80, CHR 0x80],
      [CHR 0xEF, CHR 0xBB, CHR 0xBF]]"

function skip_space :: "string \<Rightarrow> string" where
  "skip_space s =
     (case find (\<lambda>p. p \<noteq> [] \<and> take (length p) s = p) white_space of
        None \<Rightarrow> s
      | Some p \<Rightarrow> skip_space (drop (length p) s))"
  by pat_completeness auto
termination
proof (relation "measure length")
  show "wf (measure length)" by simp
next
  fix s :: string and p :: string
  assume "find (\<lambda>p. p \<noteq> [] \<and> take (length p) s = p) white_space = Some p"
  then have "p \<noteq> []" and "take (length p) s = p"
    by (auto simp: find_Some_iff)
  then have "s \<noteq> []" by auto
  with \<open>p \<noteq> []\<close> show "(drop (length p) s, s) \<in> measure length" by simp
qed

declare skip_space.simps [simp del]

definition digit_val :: "char \<Rightarrow> nat option" where
  "digit_val c =
     (let n = (of_char c :: nat) in
      if 48 \<le> n \<and> n \<le> 57 then Some (n - 48)
      else if 97 \<le> n \<and> n \<le> 122 then Some (n - 87)
      else if 65 \<le> n \<and> n \<le> 90 then Some (n - 55)
      else None)"

definition is_digit_of :: "nat \<Rightarrow> char \<Rightarrow> bool" where
  "is_digit_of radix c = (case digit_val c of None \<Rightarrow> False | Some d \<Rightarrow> d < radix)"

definition digits_value :: "nat \<Rightarrow> string \<Rightarrow> nat" where
  "digits_value radix ds = foldl (\<lambda>acc c. acc * radix + the (digit_val c)) 0 ds"

text \<open>
  \<^verbatim>\<open>parseInt(s)\<close> with no radix: leading white space is skipped, one sign is read, a
  \<^verbatim>\<open>0x\<close> prefix selects base 16, and the longest run of digits is read; no digit at
  all gives \<^verbatim>\<open>NaN\<close>. The result is the double nearest to the signed integer the
  digits denote, as Node computes it.
\<close>

definition parseInt_string :: "string \<Rightarrow> number" where
  "parseInt_string s =
     (let s1 = skip_space s;
          negative = (take 1 s1 = ''-'');
          s2 = (if take 1 s1 = ''+'' \<or> take 1 s1 = ''-'' then drop 1 s1 else s1);
          hex = (take 2 s2 = ''0x'' \<or> take 2 s2 = ''0X'');
          radix = (if hex then 16 else 10);
          s3 = (if hex then drop 2 s2 else s2);
          ds = takeWhile (is_digit_of radix) s3
      in if ds = [] then NaN
         else to_double ((if negative then - 1 else 1) * int (digits_value radix ds)))"

text \<open>\<^verbatim>\<open>parseInt(v)\<close> first turns its argument into a string.\<close>

definition parseInt :: "(int \<Rightarrow> string) \<Rightarrow> json option \<Rightarrow> number" where
  "parseInt big v = (case v of None \<Rightarrow> NaN | Some x \<Rightarrow> parseInt_string (to_string big x))"

text \<open>
  The sum of two numbers: the double nearest to the sum of two integers; \<^verbatim>\<open>NaN\<close>
  when a side is \<^verbatim>\<open>NaN\<close> or the sides are opposite infinities.
\<close>

fun num_add :: "number \<Rightarrow> number \<Rightarrow> number" where
  "num_add (Num a) (Num b) = to_double (a + b)"
| "num_add NaN y = NaN"
| "num_add x NaN = NaN"
| "num_add PosInfinity NegInfinity = NaN"
| "num_add NegInfinity PosInfinity = NaN"
| "num_add PosInfinity y = PosInfinity"
| "num_add NegInfinity y = NegInfinity"
| "num_add x PosInfinity = PosInfinity"
| "num_add x NegInfinity = NegInfinity"

fun num_gt :: "number \<Rightarrow> number \<Rightarrow> bool" where
  "num_gt (Num a) (Num b) = (b < a)"
| "num_gt NaN y = False"
| "num_gt x NaN = False"
| "num_gt PosInfinity y = (y \<noteq> PosInfinity)"
| "num_gt x NegInfinity = (x \<noteq> NegInfinity)"
| "num_gt x y = False"

text \<open>
  \<^verbatim>\<open>l + r\<close> where \<open>r\<close> is a number: \<^verbatim>\<open>undefined\<close> counts as \<^verbatim>\<open>NaN\<close>,
  \<^verbatim>\<open>null\<close> as 0, a boolean as 0 or 1; a string, an array or an object on the left
  turns the sum into a concatenation.
\<close>

fun js_add :: "(int \<Rightarrow> string) \<Rightarrow> json option \<Rightarrow> number \<Rightarrow> prim" where
  "js_add big None r = Number NaN"
| "js_add big (Some JNull) r = Number (num_add (Num 0) r)"
| "js_add big (Some (JBool b)) r = Number (num_add (Num (if b then 1 else 0)) r)"
| "js_add big (Some (JNum a)) r = Number (num_add (Num a) r)"
| "js_add big (Some (JStr s)) r = Str (s @ number_to_string big r)"
| "js_add big (Some (JArr xs)) r = Str (to_string big (JArr xs) @ number_to_string big r)"
| "js_add big (Some (JObj kvs)) r = Str (to_string big (JObj kvs) @ number_to_string big r)"

text \<open>
  \<^verbatim>\<open>a > b\<close>. Between numbers (with \<^verbatim>\<open>undefined\<close>, \<^verbatim>\<open>null\<close> and booleans
  converted as above) it is the order of the numbers, false whenever a side is
  \<^verbatim>\<open>NaN\<close>. When a string, an array or an object is involved the runtime converts
  strings to numbers or compares strings by code units; that conversion is not part of
  the repository and is the parameter \<open>coerced\<close>.
\<close>

fun js_gt :: "(prim \<Rightarrow> json option \<Rightarrow> bool) \<Rightarrow> prim \<Rightarrow> json option \<Rightarrow> bool" where
  "js_gt coerced a None = False"
| "js_gt coerced (Number x) (Some JNull) = num_gt x (Num 0)"
| "js_gt coerced (Number x) (Some (JBool b)) = num_gt x (Num (if b then 1 else 0))"
| "js_gt coerced (Number x) (Some (JNum n)) = num_gt x (Num n)"
| "js_gt coerced a b = coerced a b"

text \<open>
  \<^verbatim>\<open>JSON.stringify\<close> of such a value: \<^verbatim>\<open>NaN\<close> and the infinities are written as
  \<^verbatim>\<open>null\<close>.
\<close>

fun to_json :: "prim \<Rightarrow> json" where
  "to_json (Number (Num i)) = JNum i"
| "to_json (Number NaN) = JNull"
| "to_json (Number PosInfinity) = JNull"
| "to_json (Number NegInfinity) = JNull"
| "to_json (Str s) = JStr s"

text \<open>\<^verbatim>\<open>xs.findIndex(p)\<close>: the first index whose element satisfies \<open>p\<close>, or \<open>-1\<close>.\<close>

fun findIndex :: "('a \<Rightarrow> bool) \<Rightarrow> 'a list \<Rightarrow> int" where
  "findIndex p [] = - 1"
| "findIndex p (x # xs) =
     (if p x then 0 else (let i = findIndex p xs in if i = - 1 then - 1 else i + 1))"

section \<open>The users file\<close>

text \<open>
  \<^verbatim>\<open>users.json\<close> as a read sees it: \<^verbatim>\<open>fs.readFile\<close> fails with an error code, or the
  text is not JSON, or it is a JSON array of account objects (the schema of the persisted
  resource).
\<close>

datatype users_file = ReadFails string | Unparsable | Stored "obj list"

datatype exn = SystemError string | SyntaxError | LibraryError string

text \<open>
  \<^verbatim>\<open>readUsers\<close> (lines 21-32): the only error it swallows is the one whose code is
  \<^verbatim>\<open>ENOENT\<close>; everything else is thrown again.
\<close>

definition readUsers :: "users_file \<Rightarrow> exn + obj list" where
  "readUsers f =
     (case f of
        ReadFails code \<Rightarrow> (if code = ''ENOENT'' then Inr [] else Inl (SystemError code))
      | Unparsable \<Rightarrow> Inl SyntaxError
      | Stored users \<Rightarrow> Inr users)"

text \<open>
  What \<^verbatim>\<open>fs.writeFile\<close> does in one request: it replaces the file, or it fails with a
  code, having left the file untouched or cut short (a proper prefix of a JSON array is
  not JSON).
\<close>

datatype write_outcome = WriteOk | WriteFails string bool

subsection \<open>The world of one request\<close>

record claims =
  userId :: "json option"
  email :: "json option"
  iat :: nat
  exp :: nat

datatype token = Garbage string | Jwt claims string

datatype jwt_error = JsonWebTokenError | TokenExpiredError

text \<open>
  Everything a handler takes from outside the repository: the environment variable, the
  clock (\<^verbatim>\<open>Date.now()\<close> in milliseconds and its ISO rendering; the clock reads of one
  request are one instant), the MAC under the token signature, bcrypt's digest of a
  string at cost 12 with the salt of this call and bcrypt's comparison of a string with a
  stored digest, the outcome of the write, the runtime's comparison of non-numeric
  operands and its printing of numbers above \<open>2 ^ 53\<close>.
\<close>

record world =
  JWT_SECRET :: "string option"
  now_ms :: nat
  now_iso :: string
  hmac :: "string \<Rightarrow> claims \<Rightarrow> string"
  bcrypt_digest :: "string \<Rightarrow> string"
  bcrypt_matches :: "string \<Rightarrow> string \<Rightarrow> bool"
  write_result :: write_outcome
  coerced_gt :: "prim \<Rightarrow> json option \<Rightarrow> bool"
  number_string :: "int \<Rightarrow> string"

text \<open>
  \<^verbatim>\<open>bcrypt.hash(data, 12)\<close> and \<^verbatim>\<open>bcrypt.compare(data, hash)\<close> as the handlers
  call them (lines 61 and 123). The package is not part of the repository. It takes
  strings only: for any other argument, \<^verbatim>\<open>undefined\<close> included, the promise is
  rejected, which the \<^verbatim>\<open>await\<close> turns into an exception (its message is not
  modelled; the string names the package).
\<close>

definition bcrypt_hash :: "world \<Rightarrow> json option \<Rightarrow> exn + string" where
  "bcrypt_hash w data =
     (case data of
        Some (JStr s) \<Rightarrow> Inr (bcrypt_digest w s)
      | _ \<Rightarrow> Inl (LibraryError ''bcrypt''))"

definition bcrypt_compare :: "world \<Rightarrow> json option \<Rightarrow> json option \<Rightarrow> exn + bool" where
  "bcrypt_compare w data hash =
     (case data of
        Some (JStr s) \<Rightarrow>
          (case hash of
             Some (JStr h) \<Rightarrow> Inr (bcrypt_matches w s h)
           | _ \<Rightarrow> Inl (LibraryError ''bcrypt''))
      | _ \<Rightarrow> Inl (LibraryError ''bcrypt''))"

text \<open>\<^verbatim>\<open>writeUsers\<close> (lines 35-37): the error it throws, if any, and the file afterwards.\<close>

definition writeUsers :: "world \<Rightarrow> obj list \<Rightarrow> users_file \<Rightarrow> exn option \<times> users_file" where
  "writeUsers w users f =
     (case write_result w of
        WriteOk \<Rightarrow> (None, Stored users)
      | WriteFails code truncated \<Rightarrow>
          (Some (SystemError code), if truncated then Unparsable else f))"

text \<open>\<^verbatim>\<open>process.env.JWT_SECRET || 'cloudim-secret-key'\<close>\<close>

definition secret :: "world \<Rightarrow> string" where
  "secret w =
     (case JWT_SECRET w of
        None \<Rightarrow> ''cloudim-secret-key''
      | Some s \<Rightarrow> (if s = [] then ''cloudim-secret-key'' else s))"

subsection \<open>Bearer tokens\<close>

text \<open>
  Modelled from the spec: \<^verbatim>\<open>jwt.sign\<close> of the jsonwebtoken package, which is not under
  src/. The spec (4.2, issueToken) asks for a signed, tamper-evident token that embeds
  the account identifier and the email and an expiration a fixed time after issuance.
  The token is its claims together with the MAC of the claims under the key.
\<close>

definition jwt_sign ::
  "(string \<Rightarrow> claims \<Rightarrow> string) \<Rightarrow> json option \<Rightarrow> json option \<Rightarrow> string \<Rightarrow> nat \<Rightarrow> nat \<Rightarrow> token" where
  "jwt_sign mac uid em key expiresIn now =
     (let c = \<lparr>userId = uid, email = em, iat = now, exp = now + expiresIn\<rparr>
      in Jwt c (mac key c))"

text \<open>
  Modelled from the spec: \<^verbatim>\<open>jwt.verify\<close> of the jsonwebtoken package, which is not
  under src/. The spec (4.2, verifyToken) says: it fails with the invalid-token error if
  the signature or the format is malformed, with the expired-token error if the
  expiration is past, else it returns the embedded claims.
\<close>

definition jwt_verify ::
  "(string \<Rightarrow> claims \<Rightarrow> string) \<Rightarrow> token \<Rightarrow> string \<Rightarrow> nat \<Rightarrow> jwt_error + claims" where
  "jwt_verify mac t key now =
     (case t of
        Garbage s \<Rightarrow> Inl JsonWebTokenError
      | Jwt c sg \<Rightarrow>
          (if sg \<noteq> mac key c then Inl JsonWebTokenError
           else if exp c \<le> now then Inl TokenExpiredError
           else Inr c))"

text \<open>
  The two calls as the source makes them (lines 85-89, 129-133 and 157): the payload is
  \<^verbatim>\<open>{userId, email}\<close>, the key is \<open>secret\<close>, and \<^verbatim>\<open>expiresIn: '7d'\<close> is
  \<open>7 * 24 * 60 * 60\<close> seconds on the clock in seconds.
\<close>

definition issueToken :: "world \<Rightarrow> json option \<Rightarrow> json option \<Rightarrow> token" where
  "issueToken w uid em = jwt_sign (hmac w) uid em (secret w) (7 * 24 * 60 * 60) (now_ms w div 1000)"

definition verifyToken :: "world \<Rightarrow> token \<Rightarrow> jwt_error + claims" where
  "verifyToken w t = jwt_verify (hmac w) t (secret w) (now_ms w div 1000)"

section \<open>Responses\<close>

text \<open>
  A response is its status and its JSON body, one constructor per shape the handlers
  send. Left out of the bodies: the random identifiers and counts, the timestamps, the
  static file listing, and the storage percentage (a floating-point quotient).
\<close>

datatype body =
    ErrorBody string
  | AuthBody string token obj
  | UserBody obj
  | ProfileBody string obj
  | StatsBody "json option" "json option"
  | UploadBody string json json json "json option"
  | FilesBody
  | RootBody string

type_synonym response = "nat \<times> body"

abbreviation a_acute :: string where "a_acute \<equiv> [CHR 0xC3, CHR 0xA1]"
abbreviation a_tilde :: string where "a_tilde \<equiv> [CHR 0xC3, CHR 0xA3]"
abbreviation o_acute :: string where "o_acute \<equiv> [CHR 0xC3, CHR 0xB3]"

text \<open>\<^verbatim>\<open>const { password: _, ...userData } = user\<close>\<close>

definition without_password :: "obj \<Rightarrow> obj" where
  "without_password user = AList.delete ''password'' user"

section \<open>The handlers\<close>

text \<open>
  Each handler takes the world of its request, the request and the file, and returns the
  response it sends and the file it leaves. Every \<^verbatim>\<open>return res.status(...)\<close> and
  every \<^verbatim>\<open>catch\<close> of the source is a branch. Requests are served one at a time: the
  read, the computation and the write of one handler are one step.
\<close>

subsection \<open>\<^verbatim>\<open>POST /api/auth/register\<close> (lines 42-102)\<close>

definition newUser :: "world \<Rightarrow> json \<Rightarrow> json \<Rightarrow> string \<Rightarrow> obj" where
  "newUser w username_v email_v hashedPassword =
     [(''id'', JStr (show_nat (now_ms w))),
      (''username'', username_v),
      (''email'', email_v),
      (''password'', JStr hashedPassword),
      (''storageUsed'', JNum 0),
      (''storageLimit'', JNum 1099511627776),
      (''createdAt'', JStr (now_iso w)),
      (''isActive'', JBool True),
      (''settings'', JObj [(''autoSync'', JBool False), (''notifications'', JBool True),
                           (''theme'', JStr ''light'')])]"

definition register :: "world \<Rightarrow> obj \<Rightarrow> users_file \<Rightarrow> response \<times> users_file" where
  "register w reqbody f =
     (let username_v = get_prop reqbody ''username'';
          email_v = get_prop reqbody ''email'';
          password_v = get_prop reqbody ''password''
      in
      if \<not> truthy username_v \<or> \<not> truthy email_v \<or> \<not> truthy password_v
      then ((400, ErrorBody (''Todos os campos s'' @ a_tilde @ ''o obrigat'' @ o_acute @ ''rios'')), f)
      else
        (case readUsers f of
           Inl e \<Rightarrow> ((500, ErrorBody ''Erro interno do servidor''), f)
         | Inr users \<Rightarrow>
             (case find (\<lambda>u. strict_eq (get_prop u ''email'') email_v
                             \<or> strict_eq (get_prop u ''username'') username_v) users of
                Some existingUser \<Rightarrow>
                  ((409, ErrorBody (''Usu'' @ a_acute @ ''rio ou email j'' @ a_acute @ '' cadastrado'')), f)
              | None \<Rightarrow>
                  (case bcrypt_hash w password_v of
                     Inl e \<Rightarrow> ((500, ErrorBody ''Erro interno do servidor''), f)
                   | Inr hashedPassword \<Rightarrow>
                       (let nu = newUser w (the username_v) (the email_v) hashedPassword in
                        case writeUsers w (users @ [nu]) f of
                          (Some e, f') \<Rightarrow> ((500, ErrorBody ''Erro interno do servidor''), f')
                        | (None, f') \<Rightarrow>
                            ((201, AuthBody ''Conta criada com sucesso!''
                                     (issueToken w (get_prop nu ''id'') (get_prop nu ''email''))
                                     (without_password nu)), f'))))))"

subsection \<open>\<^verbatim>\<open>POST /api/auth/login\<close> (lines 105-146)\<close>

definition login :: "world \<Rightarrow> obj \<Rightarrow> users_file \<Rightarrow> response \<times> users_file" where
  "login w reqbody f =
     (let email_v = get_prop reqbody ''email'';
          password_v = get_prop reqbody ''password''
      in
      if \<not> truthy email_v \<or> \<not> truthy password_v
      then ((400, ErrorBody (''Email e senha s'' @ a_tilde @ ''o obrigat'' @ o_acute @ ''rios'')), f)
      else
        (case readUsers f of
           Inl e \<Rightarrow> ((500, ErrorBody ''Erro interno do servidor''), f)
         | Inr users \<Rightarrow>
             (case find (\<lambda>u. strict_eq (get_prop u ''email'') email_v) users of
                None \<Rightarrow> ((401, ErrorBody (''Credenciais inv'' @ a_acute @ ''lidas'')), f)
              | Some user \<Rightarrow>
                  (case bcrypt_compare w password_v (get_prop user ''password'') of
                     Inl e \<Rightarrow> ((500, ErrorBody ''Erro interno do servidor''), f)
                   | Inr isValidPassword \<Rightarrow>
                       if \<not> isValidPassword
                       then ((401, ErrorBody (''Credenciais inv'' @ a_acute @ ''lidas'')), f)
                       else ((200, AuthBody ''Login bem-sucedido!''
                                     (issueToken w (get_prop user ''id'') (get_prop user ''email''))
                                     (without_password user)), f)))))"

subsection \<open>The middleware \<^verbatim>\<open>authenticateToken\<close> (lines 149-176)\<close>

text \<open>
  The argument is what \<^verbatim>\<open>authHeader && authHeader.split(' ')[1]\<close> gives: nothing, or
  the second word of the header. The result is the response the middleware sends itself,
  or the account it puts in \<^verbatim>\<open>req.user\<close> before \<^verbatim>\<open>next()\<close>.
\<close>

fun token_truthy :: "token option \<Rightarrow> bool" where
  "token_truthy None = False"
| "token_truthy (Some (Garbage s)) = (s \<noteq> [])"
| "token_truthy (Some (Jwt c sg)) = True"

definition authenticateToken :: "world \<Rightarrow> token option \<Rightarrow> users_file \<Rightarrow> response + obj" where
  "authenticateToken w tok f =
     (if \<not> token_truthy tok
      then Inl (401, ErrorBody (''Token n'' @ a_tilde @ ''o fornecido''))
      else
        (case verifyToken w (the tok) of
           Inl err \<Rightarrow> Inl (401, ErrorBody (''Token inv'' @ a_acute @ ''lido''))
         | Inr decoded \<Rightarrow>
             (case readUsers f of
                Inl e \<Rightarrow> Inl (500, ErrorBody (''Erro ao verificar usu'' @ a_acute @ ''rio''))
              | Inr users \<Rightarrow>
                  (case find (\<lambda>u. strict_eq (get_prop u ''id'') (userId decoded)) users of
                     None \<Rightarrow> Inl (401, ErrorBody (''Usu'' @ a_acute @ ''rio n'' @ a_tilde @ ''o encontrado''))
                   | Some user \<Rightarrow> Inr user))))"

subsection \<open>\<^verbatim>\<open>GET /api/auth/verify\<close> and \<^verbatim>\<open>GET /api/user/profile\<close> (lines 179-188)\<close>

definition verify :: "world \<Rightarrow> token option \<Rightarrow> users_file \<Rightarrow> response \<times> users_file" where
  "verify w tok f =
     (case authenticateToken w tok f of
        Inl r \<Rightarrow> (r, f)
      | Inr req_user \<Rightarrow> ((200, UserBody (without_password req_user)), f))"

definition get_profile :: "world \<Rightarrow> token option \<Rightarrow> users_file \<Rightarrow> response \<times> users_file" where
  "get_profile w tok f =
     (case authenticateToken w tok f of
        Inl r \<Rightarrow> (r, f)
      | Inr req_user \<Rightarrow> ((200, UserBody (without_password req_user)), f))"

subsection \<open>\<^verbatim>\<open>PUT /api/user/profile\<close> (lines 191-219)\<close>

definition allowedUpdates :: "string list" where
  "allowedUpdates = [''username'', ''email'', ''settings'']"

text \<open>
  The loop \<^verbatim>\<open>for (const key in req.body)\<close> of lines 203-207, over the keys of the body
  in their order; \<^verbatim>\<open>req.body[key]\<close> is read again for each key.
\<close>

fun apply_updates :: "obj \<Rightarrow> string list \<Rightarrow> obj \<Rightarrow> obj" where
  "apply_updates reqbody [] user = user"
| "apply_updates reqbody (key # keys) user =
     apply_updates reqbody keys
       (if key \<in> set allowedUpdates then set_prop key (the (get_prop reqbody key)) user else user)"

definition update_profile ::
  "world \<Rightarrow> token option \<Rightarrow> obj \<Rightarrow> users_file \<Rightarrow> response \<times> users_file" where
  "update_profile w tok reqbody f =
     (case authenticateToken w tok f of
        Inl r \<Rightarrow> (r, f)
      | Inr req_user \<Rightarrow>
          (case readUsers f of
             Inl e \<Rightarrow> ((500, ErrorBody ''Erro ao atualizar perfil''), f)
           | Inr users \<Rightarrow>
               (let userIndex = findIndex (\<lambda>u. strict_eq (get_prop u ''id'') (get_prop req_user ''id'')) users
                in
                if userIndex = - 1
                then ((404, ErrorBody (''Usu'' @ a_acute @ ''rio n'' @ a_tilde @ ''o encontrado'')), f)
                else
                  (let users' = users[nat userIndex :=
                                   apply_updates reqbody (map fst reqbody) (users ! nat userIndex)]
                   in
                   case writeUsers w users' f of
                     (Some e, f') \<Rightarrow> ((500, ErrorBody ''Erro ao atualizar perfil''), f')
                   | (None, f') \<Rightarrow>
                       ((200, ProfileBody ''Perfil atualizado com sucesso!''
                                (without_password (users' ! nat userIndex))), f')))))"

subsection \<open>\<^verbatim>\<open>GET /api/user/stats\<close> (lines 222-233)\<close>

definition stats :: "world \<Rightarrow> token option \<Rightarrow> users_file \<Rightarrow> response \<times> users_file" where
  "stats w tok f =
     (case authenticateToken w tok f of
        Inl r \<Rightarrow> (r, f)
      | Inr req_user \<Rightarrow>
          ((200, StatsBody (get_prop req_user ''storageUsed'') (get_prop req_user ''storageLimit'')), f))"

subsection \<open>\<^verbatim>\<open>POST /api/files/upload\<close> (lines 236-278)\<close>

definition upload ::
  "world \<Rightarrow> token option \<Rightarrow> obj \<Rightarrow> users_file \<Rightarrow> response \<times> users_file" where
  "upload w tok reqbody f =
     (case authenticateToken w tok f of
        Inl r \<Rightarrow> (r, f)
      | Inr req_user \<Rightarrow>
          (let filename = get_prop reqbody ''filename'';
               size_v = get_prop reqbody ''size''
           in
           if \<not> truthy filename \<or> \<not> truthy size_v
           then ((400, ErrorBody (''Nome do arquivo e tamanho s'' @ a_tilde @ ''o obrigat'' @ o_acute @ ''rios'')), f)
           else
             (case readUsers f of
                Inl e \<Rightarrow> ((500, ErrorBody ''Erro ao fazer upload''), f)
              | Inr users \<Rightarrow>
                  (let userIndex = findIndex (\<lambda>u. strict_eq (get_prop u ''id'') (get_prop req_user ''id'')) users
                   in
                   if userIndex = - 1
                   then ((404, ErrorBody (''Usu'' @ a_acute @ ''rio n'' @ a_tilde @ ''o encontrado'')), f)
                   else
                     (let newSize = js_add (number_string w) (get_prop (users ! nat userIndex) ''storageUsed'')
                                      (parseInt (number_string w) size_v)
                      in
                      if js_gt (coerced_gt w) newSize (get_prop (users ! nat userIndex) ''storageLimit'')
                      then ((400, ErrorBody ''Limite de armazenamento excedido''), f)
                      else
                        (let users' = users[nat userIndex :=
                                         set_prop ''storageUsed'' (to_json newSize) (users ! nat userIndex)]
                         in
                         case writeUsers w users' f of
                           (Some e, f') \<Rightarrow> ((500, ErrorBody ''Erro ao fazer upload''), f')
                         | (None, f') \<Rightarrow>
                             ((200, UploadBody ''Arquivo enviado com sucesso!''
                                      (the filename)
                                      (to_json (Number (parseInt (number_string w) size_v)))
                                      (to_json newSize)
                                      (get_prop (users' ! nat userIndex) ''storageLimit'')), f')))))))"

subsection \<open>The remaining routes and the router\<close>

text \<open>
  \<^verbatim>\<open>GET /api/files\<close> (lines 281-291), \<^verbatim>\<open>GET /\<close> (lines 294-296), the fallback for
  unknown routes (lines 305-307), and the error handler (lines 299-302), where a request
  ends whose body \<^verbatim>\<open>express.json()\<close> cannot parse.
\<close>

definition list_files :: "world \<Rightarrow> token option \<Rightarrow> users_file \<Rightarrow> response \<times> users_file" where
  "list_files w tok f =
     (case authenticateToken w tok f of
        Inl r \<Rightarrow> (r, f)
      | Inr req_user \<Rightarrow> ((200, FilesBody), f))"

datatype request =
    Register obj
  | Login obj
  | Verify "token option"
  | GetProfile "token option"
  | UpdateProfile "token option" obj
  | Stats "token option"
  | Upload "token option" obj
  | ListFiles "token option"
  | Root
  | NoRoute
  | MalformedBody

fun handle :: "world \<Rightarrow> request \<Rightarrow> users_file \<Rightarrow> response \<times> users_file" where
  "handle w (Register reqbody) f = register w reqbody f"
| "handle w (Login reqbody) f = login w reqbody f"
| "handle w (Verify tok) f = verify w tok f"
| "handle w (GetProfile tok) f = get_profile w tok f"
| "handle w (UpdateProfile tok reqbody) f = update_profile w tok reqbody f"
| "handle w (Stats tok) f = stats w tok f"
| "handle w (Upload tok reqbody) f = upload w tok reqbody f"
| "handle w (ListFiles tok) f = list_files w tok f"
| "handle w Root f =
     ((200, RootBody (''API do Cloudim - Backend de Autentica'' @ [CHR 0xC3, CHR 0xA7] @ a_tilde
                      @ ''o e Contas (Vers'' @ a_tilde @ ''o Simplificada)'')), f)"
| "handle w NoRoute f = ((404, ErrorBody (''Rota n'' @ a_tilde @ ''o encontrada'')), f)"
| "handle w MalformedBody f = ((500, ErrorBody ''Algo deu errado!''), f)"

text \<open>
  The files the service can be in: it starts with no \<^verbatim>\<open>users.json\<close>, and every request
  it serves, in whatever world, takes it one step further.
\<close>

inductive reachable :: "users_file \<Rightarrow> bool" where
  initial: "reachable (ReadFails ''ENOENT'')"
| step: "reachable f \<Longrightarrow> reachable (snd (handle w r f))"

text \<open>The user object a response carries, if it carries one.\<close>

fun response_user :: "response \<Rightarrow> obj option" where
  "response_user (st, AuthBody m t u) = Some u"
| "response_user (st, UserBody u) = Some u"
| "response_user (st, ProfileBody m u) = Some u"
| "response_user (st, b) = None"

text \<open>The accounts a file holds.\<close>

fun accounts :: "users_file \<Rightarrow> obj list" where
  "accounts (Stored users) = users"
| "accounts f = []"

section \<open>The shape of an account the service has written\<close>

text \<open>
  The keys of the object literal of lines 64-78, in its order, and the limit it sets.
\<close>

definition account_keys :: "string list" where
  "account_keys = [''id'', ''username'', ''email'', ''password'', ''storageUsed'', ''storageLimit'',
                   ''createdAt'', ''isActive'', ''settings'']"

definition account_shape :: "obj \<Rightarrow> bool" where
  "account_shape u = (map fst u = account_keys \<and> get_prop u ''storageLimit'' = Some (JNum 1099511627776))"

definition store_ok :: "users_file \<Rightarrow> bool" where
  "store_ok f = list_all account_shape (accounts f)"

section \<open>A small world to run the handlers in\<close>

text \<open>
  A world in which the clock stands at 5 ms, no signing secret is configured, every write
  succeeds, bcrypt's digest is replaced by a stand-in that prefixes the password, and the
  only number above \<open>2 ^ 53\<close> that is ever printed is \<open>10 ^ 21\<close>; and the
  registration request of the spec's end-to-end scenario with the account it creates
  there.
\<close>

definition example_world :: world where
  "example_world =
     \<lparr>JWT_SECRET = None,
      now_ms = 5,
      now_iso = ''1970-01-01T00:00:00.005Z'',
      hmac = (\<lambda>key c. key),
      bcrypt_digest = (\<lambda>s. ''$2b$12$'' @ s),
      bcrypt_matches = (\<lambda>s h. h = ''$2b$12$'' @ s),
      write_result = WriteOk,
      coerced_gt = (\<lambda>a b. False),
      number_string = (\<lambda>i. ''1e+21'')\<rparr>"

definition ana_body :: obj where
  "ana_body = [(''username'', JStr ''ana''), (''email'', JStr ''ana@x.com''), (''password'', JStr ''p1'')]"

definition ana_account :: obj where
  "ana_account = newUser example_world (JStr ''ana'') (JStr ''ana@x.com'') ''$2b$12$p1''"

text \<open>
  The token the registration hands Ana, and a second registration, Bob's, with the account
  and the token it gets in the same world.
\<close>

definition ana_token :: token where
  "ana_token = issueToken example_world (Some (JStr ''5'')) (Some (JStr ''ana@x.com''))"

definition bob_body :: obj where
  "bob_body = [(''username'', JStr ''bob''), (''email'', JStr ''bob@x.com''), (''password'', JStr ''p2'')]"

definition bob_account :: obj where
  "bob_account = newUser example_world (JStr ''bob'') (JStr ''bob@x.com'') ''$2b$12$p2''"


definition bob_token :: token where
  "bob_token = issueToken example_world (Some (JStr ''5'')) (Some (JStr ''bob@x.com''))"

section \<open>Properties\<close>

subsection \<open>Facts shared by the proofs\<close>

lemma strict_eq_JStr [simp]: "strict_eq x (Some (JStr s)) = (x = Some (JStr s))"
  by (cases "(x, Some (JStr s))" rule: strict_eq.cases) auto

lemma show_nat_5: "show_nat 5 = ''5''"
  by (simp add: show_nat.simps digit_char_def)

lemma example_world_sel:
  "JWT_SECRET example_world = None"
  "now_ms example_world = 5"
  "now_iso example_world = ''1970-01-01T00:00:00.005Z''"
  "hmac example_world key c = key"
  "bcrypt_digest example_world s = ''$2b$12$'' @ s"
  "bcrypt_matches example_world s h = (h = ''$2b$12$'' @ s)"
  "write_result example_world = WriteOk"
  "coerced_gt example_world a b = False"
  "number_string example_world i = ''1e+21''"
  by (simp_all add: example_world_def)

lemma bcrypt_on_strings:
  "bcrypt_hash w (Some (JStr s)) = Inr (bcrypt_digest w s)"
  "bcrypt_compare w (Some (JStr s)) (Some (JStr h)) = Inr (bcrypt_matches w s h)"
  by (simp_all add: bcrypt_hash_def bcrypt_compare_def)

lemma bcrypt_on_numbers:
  "bcrypt_hash w (Some (JNum n)) = Inl (LibraryError ''bcrypt'')"
  "bcrypt_compare w (Some (JNum n)) h = Inl (LibraryError ''bcrypt'')"
  by (simp_all add: bcrypt_hash_def bcrypt_compare_def)


lemma to_double_safe: "\<bar>n\<bar> \<le> 9007199254740991 \<Longrightarrow> to_double n = Num n"
  by (auto simp: to_double_def Let_def)


lemma ana_account_props:
  "get_prop ana_account ''email'' = Some (JStr ''ana@x.com'')"
  "get_prop ana_account ''username'' = Some (JStr ''ana'')"
  "get_prop ana_account ''password'' = Some (JStr ''$2b$12$p1'')"
  "get_prop ana_account ''id'' = Some (JStr ''5'')"
  by (simp_all add: ana_account_def newUser_def get_prop_def example_world_def show_nat_5)

lemma ana_storage:
  "get_prop ana_account ''storageUsed'' = Some (JNum 0)"
  "get_prop ana_account ''storageLimit'' = Some (JNum 1099511627776)"
  by (simp_all add: ana_account_def newUser_def get_prop_def)

lemma bob_account_props:
  "get_prop bob_account ''email'' = Some (JStr ''bob@x.com'')"
  "get_prop bob_account ''username'' = Some (JStr ''bob'')"
  "get_prop bob_account ''id'' = Some (JStr ''5'')"
  by (simp_all add: bob_account_def newUser_def get_prop_def example_world_sel show_nat_5)

lemma skip_space_examples:
  "skip_space ''-5'' = ''-5''"
  "skip_space ''1'' = ''1''"
  "skip_space ''100'' = ''100''"
  "skip_space ''abc'' = ''abc''"
  "skip_space ''2000000000000'' = ''2000000000000''"
  "skip_space ''-9007199254740994'' = ''-9007199254740994''"
  "skip_space ''1e+21'' = ''1e+21''"
  "skip_space [CHR 0xC2, CHR 0xA0, CHR ''1'', CHR ''2''] = ''12''"
  by (simp_all add: skip_space.simps white_space_def)

lemma parseInt_examples:
  "parseInt big (Some (JStr ''-5'')) = Num (- 5)"
  "parseInt big (Some (JStr ''1'')) = Num 1"
  "parseInt big (Some (JStr ''100'')) = Num 100"
  "parseInt big (Some (JStr ''abc'')) = NaN"
  "parseInt big (Some (JStr ''2000000000000'')) = Num 2000000000000"
  "parseInt big (Some (JStr [CHR 0xC2, CHR 0xA0, CHR ''1'', CHR ''2''])) = Num 12"
  by (simp_all add: parseInt_def parseInt_string_def skip_space_examples is_digit_of_def digit_val_def
      digits_value_def Let_def to_double_safe)



lemma get_prop_set_prop: "get_prop (set_prop k v u) k' = (if k' = k then Some v else get_prop u k')"
  by (simp add: get_prop_def set_prop_def update_conv')

lemma keys_set_prop:
  "map fst (set_prop k v u) = (if k \<in> set (map fst u) then map fst u else map fst u @ [k])"
  by (simp add: set_prop_def update_keys)

lemma findIndex_range: "- 1 \<le> findIndex p xs \<and> findIndex p xs < int (length xs)"
  by (induction xs) (auto simp: Let_def)

lemma findIndex_found:
  "findIndex p xs = int i \<Longrightarrow> i < length xs \<and> p (xs ! i)"
proof (induction xs arbitrary: i)
  case Nil
  then show ?case by simp
next
  case (Cons x xs)
  show ?case
  proof (cases "p x")
    case True
    with Cons.prems show ?thesis by simp
  next
    case False
    with Cons.prems have ne: "findIndex p xs \<noteq> - 1" and eq: "findIndex p xs + 1 = int i"
      by (auto simp: Let_def split: if_splits)
    from eq findIndex_range[of p xs] ne obtain j where j: "i = Suc j" "findIndex p xs = int j"
      by (cases i) auto
    with Cons.IH[of j] show ?thesis by simp
  qed
qed

lemma readUsers_accounts: "readUsers f = Inr users \<Longrightarrow> accounts f = users"
  by (cases f) (auto simp: readUsers_def split: if_splits)

lemma readUsers_ana: "readUsers (Stored [ana_account]) = Inr [ana_account]"
  by (simp add: readUsers_def)

lemma writeUsers_cases:
  "writeUsers w users f = (e, f') \<Longrightarrow>
     (e = None \<and> f' = Stored users) \<or> (e \<noteq> None \<and> (f' = f \<or> f' = Unparsable))"
  by (auto simp: writeUsers_def split: write_outcome.splits if_splits)

lemma authenticateToken_member:
  "authenticateToken w tok f = Inr user \<Longrightarrow> user \<in> set (accounts f)"
  by (auto simp: authenticateToken_def find_Some_iff dest!: readUsers_accounts
      split: if_splits sum.splits option.splits)

lemma authenticateToken_error:
  "authenticateToken w tok f = Inl r \<Longrightarrow> \<exists>st m. r = (st, ErrorBody m)"
  by (auto simp: authenticateToken_def split: if_splits sum.splits option.splits)

lemma ana_auth: "authenticateToken example_world (Some ana_token) (Stored [ana_account]) = Inr ana_account"
  by (simp add: authenticateToken_def ana_token_def issueToken_def verifyToken_def jwt_sign_def
      jwt_verify_def Let_def readUsers_def ana_account_props example_world_def)

lemma findIndex_ana:
  "findIndex (\<lambda>u. strict_eq (get_prop u ''id'') (get_prop ana_account ''id'')) [ana_account] = int 0"
  by (simp add: ana_account_props)

lemma register_ana:
  "register example_world ana_body (ReadFails ''ENOENT'') =
     ((201, AuthBody ''Conta criada com sucesso!'' ana_token (without_password ana_account)),
      Stored [ana_account])"
  by (simp add: register_def ana_body_def get_prop_def readUsers_def writeUsers_def Let_def
      ana_token_def ana_account_def newUser_def show_nat_5 example_world_sel bcrypt_on_strings)

lemma register_bob:
  "register example_world bob_body (Stored [ana_account]) =
     ((201, AuthBody ''Conta criada com sucesso!'' bob_token (without_password bob_account)),
      Stored [ana_account, bob_account])"
proof -
  have b: "get_prop bob_body ''username'' = Some (JStr ''bob'')"
    "get_prop bob_body ''email'' = Some (JStr ''bob@x.com'')"
    "get_prop bob_body ''password'' = Some (JStr ''p2'')"
    by (simp_all add: bob_body_def get_prop_def)
  show ?thesis
    by (simp add: register_def b readUsers_def writeUsers_def Let_def bob_token_def bob_account_props
        ana_account_props example_world_sel bob_account_def[symmetric] bcrypt_on_strings)
qed

lemma reachable_ana: "reachable (Stored [ana_account])"
  using reachable.step[OF reachable.initial, of example_world "Register ana_body"]
  by (simp add: register_ana)

subsection \<open>Loading the accounts\<close>

text \<open>
  C7. Among the ways a load can fail, \<^verbatim>\<open>readUsers\<close> turns exactly one into the empty
  sequence: the read error whose code is \<^verbatim>\<open>ENOENT\<close> (the file does not exist). Every
  other read error and every parse error reaches the caller as an error, and a file that
  parses is returned as it is.
\<close>

theorem readUsers_swallows_only_ENOENT:
  "(readUsers (ReadFails code) = Inr []) = (code = ''ENOENT'')
   \<and> readUsers (ReadFails code) = (if code = ''ENOENT'' then Inr [] else Inl (SystemError code))
   \<and> readUsers Unparsable = Inl SyntaxError
   \<and> readUsers (Stored users) = Inr users"
  by (simp add: readUsers_def)

subsection \<open>Registration and login\<close>




text \<open>
  Where both logins carry a string as the password and the stored digest is a string,
  the two rejections are one and the same answer.
\<close>

lemma login_rejections_identical_on_strings:
  assumes "truthy (get_prop ba ''email'')" and "truthy (get_prop ba ''password'')"
    and "readUsers fa = Inr usersa"
    and "\<forall>u\<in>set usersa. \<not> strict_eq (get_prop u ''email'') (get_prop ba ''email'')"
    and "truthy (get_prop bb ''email'')" and "get_prop bb ''password'' = Some (JStr pb)" and "pb \<noteq> []"
    and "readUsers fb = Inr usersb"
    and "find (\<lambda>u. strict_eq (get_prop u ''email'') (get_prop bb ''email'')) usersb = Some user"
    and "get_prop user ''password'' = Some (JStr h)"
    and "\<not> bcrypt_matches wb pb h"
  shows "login wa ba fa = ((401, ErrorBody (''Credenciais inv'' @ a_acute @ ''lidas'')), fa)
       \<and> login wb bb fb = ((401, ErrorBody (''Credenciais inv'' @ a_acute @ ''lidas'')), fb)"
proof -
  from assms(4) have none: "find (\<lambda>u. strict_eq (get_prop u ''email'') (get_prop ba ''email'')) usersa = None"
    by (auto simp: find_None_iff)
  have la: "login wa ba fa = ((401, ErrorBody (''Credenciais inv'' @ a_acute @ ''lidas'')), fa)"
    using assms(1-3) none by (simp add: login_def)
  have lb: "login wb bb fb = ((401, ErrorBody (''Credenciais inv'' @ a_acute @ ''lidas'')), fb)"
    using assms(5-11) by (simp add: login_def bcrypt_on_strings)
  show ?thesis by (simp add: la lb)
qed

text \<open>
  C8. The two rejections are not always the same answer. With the number 123 as the
  password, a login for Ana's email, which is stored, reaches bcrypt, which throws, and
  is answered 500; the same login for an email that is not stored is answered 401. The
  two answers tell whether the email has an account.
\<close>

theorem login_number_password_tells_accounts_apart:
  "truthy (get_prop [(''email'', JStr ''ana@x.com''), (''password'', JNum 123)] ''password'')
   \<and> login example_world [(''email'', JStr ''ana@x.com''), (''password'', JNum 123)] (Stored [ana_account])
       = ((500, ErrorBody ''Erro interno do servidor''), Stored [ana_account])
   \<and> login example_world [(''email'', JStr ''bob@x.com''), (''password'', JNum 123)] (Stored [ana_account])
       = ((401, ErrorBody (''Credenciais inv'' @ a_acute @ ''lidas'')), Stored [ana_account])"
proof -
  have a: "get_prop [(''email'', JStr ''ana@x.com''), (''password'', JNum 123)] ''email'' = Some (JStr ''ana@x.com'')"
    "get_prop [(''email'', JStr ''ana@x.com''), (''password'', JNum 123)] ''password'' = Some (JNum 123)"
    and b: "get_prop [(''email'', JStr ''bob@x.com''), (''password'', JNum 123)] ''email'' = Some (JStr ''bob@x.com'')"
    "get_prop [(''email'', JStr ''bob@x.com''), (''password'', JNum 123)] ''password'' = Some (JNum 123)"
    by (simp_all add: get_prop_def)
  show ?thesis
    by (simp add: login_def a b readUsers_def ana_account_props bcrypt_on_numbers)
qed

theorem login_number_password_tells_accounts_apart_witness:
  "fst (login example_world [(''email'', JStr ''ana@x.com''), (''password'', JNum 123)] (Stored [ana_account]))
     \<noteq> fst (login example_world [(''email'', JStr ''bob@x.com''), (''password'', JNum 123)] (Stored [ana_account]))"
  using login_number_password_tells_accounts_apart by simp

text \<open>
  C9. Two registrations served while the clock shows the same millisecond both succeed
  and both accounts get the id \<^verbatim>\<open>5\<close>, the clock reading. The accounts differ, the ids
  do not; and since the middleware looks an account up by id, Bob's token passes on
  Ana's account.
\<close>

theorem same_millisecond_ids_collide:
  "register example_world ana_body (ReadFails ''ENOENT'')
     = ((201, AuthBody ''Conta criada com sucesso!'' ana_token (without_password ana_account)),
        Stored [ana_account])
   \<and> register example_world bob_body (Stored [ana_account])
     = ((201, AuthBody ''Conta criada com sucesso!'' bob_token (without_password bob_account)),
        Stored [ana_account, bob_account])
   \<and> get_prop ana_account ''id'' = Some (JStr ''5'')
   \<and> get_prop bob_account ''id'' = Some (JStr ''5'')
   \<and> ana_account \<noteq> bob_account
   \<and> authenticateToken example_world (Some bob_token) (Stored [ana_account, bob_account]) = Inr ana_account"
proof -
  have "ana_account \<noteq> bob_account"
    by (simp add: ana_account_def bob_account_def newUser_def)
  moreover have "authenticateToken example_world (Some bob_token) (Stored [ana_account, bob_account])
      = Inr ana_account"
    by (simp add: authenticateToken_def bob_token_def issueToken_def verifyToken_def jwt_sign_def
      jwt_verify_def Let_def readUsers_def ana_account_props example_world_sel)
  ultimately show ?thesis
    by (simp add: register_ana register_bob ana_account_props bob_account_props)
qed

theorem same_millisecond_ids_collide_witness:
  "get_prop (accounts (snd (register example_world bob_body
              (snd (register example_world ana_body (ReadFails ''ENOENT''))))) ! 0) ''id''
     = get_prop (accounts (snd (register example_world bob_body
              (snd (register example_world ana_body (ReadFails ''ENOENT''))))) ! 1) ''id''"
  using same_millisecond_ids_collide by simp

subsection \<open>Bearer tokens\<close>

lemma verifyToken_issueToken_fresh:
  assumes "hmac w' = hmac w" and "JWT_SECRET w' = JWT_SECRET w"
  shows "verifyToken w' (issueToken w uid em) =
           (if now_ms w div 1000 + 604800 \<le> now_ms w' div 1000 then Inl TokenExpiredError
            else Inr \<lparr>userId = uid, email = em, iat = now_ms w div 1000, exp = now_ms w div 1000 + 604800\<rparr>)"
proof -
  from assms have "secret w' = secret w" by (simp add: secret_def)
  with assms show ?thesis
    by (simp add: verifyToken_def issueToken_def jwt_sign_def jwt_verify_def Let_def)
qed

lemma verifyToken_bad_signature:
  "sg \<noteq> hmac w (secret w) c \<Longrightarrow> verifyToken w (Jwt c sg) = Inl JsonWebTokenError"
  by (simp add: verifyToken_def jwt_verify_def)

lemma verifyToken_garbage: "verifyToken w (Garbage s) = Inl JsonWebTokenError"
  by (simp add: verifyToken_def jwt_verify_def)

text \<open>
  C6. In one process (the same MAC and the same configured secret at issue and at
  verification), for every id and email: the token just issued verifies and the claims
  returned are the issued id and email, with the issue and expiry times; it goes on
  verifying with these claims until seven days have passed; from then on verification
  fails with the expired-token error; and a token whose signature is not the MAC of its
  claims, like a malformed token, fails with the invalid-token error.
\<close>

theorem verifyToken_issueToken:
  assumes "hmac w' = hmac w" and "JWT_SECRET w' = JWT_SECRET w"
  shows "verifyToken w (issueToken w uid em)
           = Inr \<lparr>userId = uid, email = em, iat = now_ms w div 1000, exp = now_ms w div 1000 + 604800\<rparr>
       \<and> (now_ms w' div 1000 < now_ms w div 1000 + 604800 \<longrightarrow>
            (\<exists>c. verifyToken w' (issueToken w uid em) = Inr c \<and> userId c = uid \<and> email c = em))
       \<and> (now_ms w div 1000 + 604800 \<le> now_ms w' div 1000 \<longrightarrow>
            verifyToken w' (issueToken w uid em) = Inl TokenExpiredError)
       \<and> (sg \<noteq> hmac w (secret w) c \<longrightarrow> verifyToken w (Jwt c sg) = Inl JsonWebTokenError)
       \<and> verifyToken w (Garbage s) = Inl JsonWebTokenError"
proof -
  have "verifyToken w (issueToken w uid em)
           = Inr \<lparr>userId = uid, email = em, iat = now_ms w div 1000, exp = now_ms w div 1000 + 604800\<rparr>"
    by (simp add: verifyToken_issueToken_fresh)
  moreover have "\<exists>c. verifyToken w' (issueToken w uid em) = Inr c \<and> userId c = uid \<and> email c = em"
    if "now_ms w' div 1000 < now_ms w div 1000 + 604800"
    using that by (simp add: verifyToken_issueToken_fresh[OF assms])
  moreover have "verifyToken w' (issueToken w uid em) = Inl TokenExpiredError"
    if "now_ms w div 1000 + 604800 \<le> now_ms w' div 1000"
    using that by (simp add: verifyToken_issueToken_fresh[OF assms])
  ultimately show ?thesis
    by (simp add: verifyToken_bad_signature verifyToken_garbage)
qed

theorem verifyToken_issueToken_witness:
  "verifyToken example_world (issueToken example_world (Some (JStr ''5'')) (Some (JStr ''ana@x.com'')))
     = Inr \<lparr>userId = Some (JStr ''5''), email = Some (JStr ''ana@x.com''), iat = 0, exp = 604800\<rparr>
   \<and> verifyToken (example_world\<lparr>now_ms := 604800000\<rparr>)
        (issueToken example_world (Some (JStr ''5'')) (Some (JStr ''ana@x.com'')))
     = Inl TokenExpiredError
   \<and> verifyToken example_world
        (Jwt \<lparr>userId = Some (JStr ''7''), email = Some (JStr ''ana@x.com''), iat = 0, exp = 604800\<rparr> ''forged'')
     = Inl JsonWebTokenError"
proof -
  have h: "hmac (example_world\<lparr>now_ms := 604800000\<rparr>) = hmac example_world"
    "JWT_SECRET (example_world\<lparr>now_ms := 604800000\<rparr>) = JWT_SECRET example_world"
    by simp_all
  have f: "''forged'' \<noteq> hmac example_world (secret example_world) c" for c
    by (simp add: example_world_sel secret_def)
  from verifyToken_issueToken[OF h, of "Some (JStr ''5'')" "Some (JStr ''ana@x.com'')" "''forged''"
      "\<lparr>userId = Some (JStr ''7''), email = Some (JStr ''ana@x.com''), iat = 0, exp = 604800\<rparr>"] f
  show ?thesis by (simp add: example_world_sel)
qed

text \<open>
  What the caller of a protected route sees of this. The middleware passes on the first
  stored account whose id is the token's, as long as the token verifies; to every error
  of the verification it gives one and the same answer, 401 with the invalid-token
  message, so an expired token and a malformed one are answered alike.
\<close>

lemma authenticateToken_after_issueToken:
  assumes "hmac w' = hmac w" and "JWT_SECRET w' = JWT_SECRET w"
    and "readUsers f = Inr users"
    and "find (\<lambda>u. strict_eq (get_prop u ''id'') uid) users = Some user"
  shows "(now_ms w' div 1000 < now_ms w div 1000 + 604800 \<longrightarrow>
            authenticateToken w' (Some (issueToken w uid em)) f = Inr user)
       \<and> (now_ms w div 1000 + 604800 \<le> now_ms w' div 1000 \<longrightarrow>
            authenticateToken w' (Some (issueToken w uid em)) f
              = Inl (401, ErrorBody (''Token inv'' @ a_acute @ ''lido'')))"
proof -
  have t: "token_truthy (Some (issueToken w uid em))"
    by (simp add: issueToken_def jwt_sign_def Let_def)
  show ?thesis
    using t assms(3,4) verifyToken_issueToken_fresh[OF assms(1,2), of uid em]
    by (simp add: authenticateToken_def)
qed

lemma authenticateToken_rejects_alike:
  "token_truthy (Some t) \<Longrightarrow> verifyToken w t = Inl e \<Longrightarrow>
   authenticateToken w (Some t) f = Inl (401, ErrorBody (''Token inv'' @ a_acute @ ''lido''))"
  by (simp add: authenticateToken_def)

lemma expired_token_answered_as_malformed:
  "authenticateToken example_world (Some ana_token) (Stored [ana_account]) = Inr ana_account
   \<and> authenticateToken (example_world\<lparr>now_ms := 604800000\<rparr>) (Some ana_token) (Stored [ana_account])
       = Inl (401, ErrorBody (''Token inv'' @ a_acute @ ''lido''))
   \<and> authenticateToken example_world (Some (Garbage ''abc'')) (Stored [ana_account])
       = Inl (401, ErrorBody (''Token inv'' @ a_acute @ ''lido''))"
  by (simp add: authenticateToken_def ana_token_def issueToken_def verifyToken_def jwt_sign_def
      jwt_verify_def Let_def readUsers_def ana_account_props example_world_sel secret_def)

subsection \<open>Profile update\<close>

lemma apply_updates_get:
  "set keys \<subseteq> fst ` set reqbody \<Longrightarrow>
   get_prop (apply_updates reqbody keys u) k =
     (if k \<in> set allowedUpdates \<and> k \<in> set keys then get_prop reqbody k else get_prop u k)"
proof (induction keys arbitrary: u)
  case Nil
  then show ?case by simp
next
  case (Cons key keys)
  from Cons.prems have "key \<in> fst ` set reqbody" by simp
  then obtain v where v: "get_prop reqbody key = Some v"
    by (cases "map_of reqbody key") (auto simp: get_prop_def map_of_eq_None_iff)
  from Cons.prems have sub: "set keys \<subseteq> fst ` set reqbody" by simp
  show ?case
    using Cons.IH[OF sub] v by (auto simp: get_prop_set_prop)
qed

lemma apply_updates_other:
  "k \<notin> set allowedUpdates \<Longrightarrow> get_prop (apply_updates reqbody (map fst reqbody) u) k = get_prop u k"
  using apply_updates_get[of "map fst reqbody" reqbody u k] by simp



subsection \<open>The storage counter\<close>

lemma upload_steps:
  assumes "authenticateToken w tok f = Inr req_user"
    and "truthy (get_prop reqbody ''filename'')"
    and "truthy (get_prop reqbody ''size'')"
    and "readUsers f = Inr users"
    and "findIndex (\<lambda>u. strict_eq (get_prop u ''id'') (get_prop req_user ''id'')) users = int i"
  shows "upload w tok reqbody f =
     (let newSize = js_add (number_string w) (get_prop (users ! i) ''storageUsed'')
                      (parseInt (number_string w) (get_prop reqbody ''size''))
      in if js_gt (coerced_gt w) newSize (get_prop (users ! i) ''storageLimit'')
         then ((400, ErrorBody ''Limite de armazenamento excedido''), f)
         else (case write_result w of
                 WriteOk \<Rightarrow>
                   ((200, UploadBody ''Arquivo enviado com sucesso!'' (the (get_prop reqbody ''filename''))
                            (to_json (Number (parseInt (number_string w) (get_prop reqbody ''size''))))
                            (to_json newSize)
                            (get_prop (users[i := set_prop ''storageUsed'' (to_json newSize) (users ! i)] ! i)
                               ''storageLimit'')),
                    Stored (users[i := set_prop ''storageUsed'' (to_json newSize) (users ! i)]))
               | WriteFails code truncated \<Rightarrow>
                   ((500, ErrorBody ''Erro ao fazer upload''), if truncated then Unparsable else f)))"
  using assms by (simp add: upload_def writeUsers_def Let_def split: write_outcome.splits)







text \<open>
  C3. The invariant \<open>0 \<le> storageUsed\<close> does not hold after every upload. Ana registers
  on an empty store and uploads a file whose size is the string \<^verbatim>\<open>-5\<close>: the sum
  \<open>0 + (-5)\<close> is not above the limit, so \<open>-5\<close> is stored. With the size
  \<^verbatim>\<open>abc\<close> the sum is \<^verbatim>\<open>NaN\<close>, which passes the same test and is written as
  \<^verbatim>\<open>null\<close>.
\<close>

theorem upload_negative_size:
  "snd (upload example_world (Some ana_token) [(''filename'', JStr ''a.txt''), (''size'', JStr ''-5'')]
          (snd (register example_world ana_body (ReadFails ''ENOENT''))))
     = Stored [set_prop ''storageUsed'' (JNum (- 5)) ana_account]
   \<and> get_prop (set_prop ''storageUsed'' (JNum (- 5)) ana_account) ''storageUsed'' = Some (JNum (- 5))
   \<and> snd (upload example_world (Some ana_token) [(''filename'', JStr ''a.txt''), (''size'', JStr ''abc'')]
          (snd (register example_world ana_body (ReadFails ''ENOENT''))))
     = Stored [set_prop ''storageUsed'' JNull ana_account]"
proof -
  have t: "truthy (get_prop [(''filename'', JStr ''a.txt''), (''size'', JStr s)] ''filename'')"
    "s \<noteq> [] \<Longrightarrow> truthy (get_prop [(''filename'', JStr ''a.txt''), (''size'', JStr s)] ''size'')" for s
    by (simp_all add: get_prop_def)
  have r: "readUsers (Stored [ana_account]) = Inr [ana_account]" by (simp add: readUsers_def)
  have w: "write_result example_world = WriteOk" "coerced_gt example_world = (\<lambda>a b. False)"
    by (simp_all add: example_world_def)
  have sz: "get_prop [(''filename'', JStr ''a.txt''), (''size'', JStr s)] ''size'' = Some (JStr s)" for s
    by (simp add: get_prop_def)
  show ?thesis
    using upload_steps[OF ana_auth t(1) t(2) r findIndex_ana, of "''-5''"]
      upload_steps[OF ana_auth t(1) t(2) r findIndex_ana, of "''abc''"]
    by (simp add: register_ana sz parseInt_examples ana_storage w get_prop_set_prop to_double_safe)
qed

theorem upload_negative_size_witness:
  "get_prop (accounts (snd (upload example_world (Some ana_token)
              [(''filename'', JStr ''a.txt''), (''size'', JStr ''-5'')]
              (snd (register example_world ana_body (ReadFails ''ENOENT''))))) ! 0) ''storageUsed''
     = Some (JNum (- 5))"
  using upload_negative_size by simp

subsection \<open>What a request can do to the file\<close>

lemma register_file:
  "snd (register w reqbody f) = f \<or> snd (register w reqbody f) = Unparsable
   \<or> (\<exists>a b h. snd (register w reqbody f) = Stored (accounts f @ [newUser w a b h]))"
proof -
  have "snd (register w reqbody f) = f \<or> snd (register w reqbody f) = Unparsable
   \<or> (\<exists>a b h users. readUsers f = Inr users \<and> snd (register w reqbody f) = Stored (users @ [newUser w a b h]))"
    by (auto simp: register_def Let_def dest!: writeUsers_cases
        split: sum.splits option.splits prod.splits)
  then show ?thesis by (auto dest: readUsers_accounts)
qed

lemma update_profile_file:
  "snd (update_profile w tok reqbody f) = f \<or> snd (update_profile w tok reqbody f) = Unparsable
   \<or> (\<exists>i<length (accounts f). snd (update_profile w tok reqbody f) =
         Stored ((accounts f)[i := apply_updates reqbody (map fst reqbody) (accounts f ! i)]))"
proof -
  have "snd (update_profile w tok reqbody f) = f \<or> snd (update_profile w tok reqbody f) = Unparsable
   \<or> (\<exists>i users. readUsers f = Inr users \<and> i < length users \<and> snd (update_profile w tok reqbody f) =
         Stored (users[i := apply_updates reqbody (map fst reqbody) (users ! i)]))"
  proof (cases "authenticateToken w tok f")
    case (Inl r)
    then show ?thesis by (simp add: update_profile_def)
  next
    case (Inr req_user)
    show ?thesis
    proof (cases "readUsers f")
      case (Inl e)
      with Inr show ?thesis by (simp add: update_profile_def)
    next
      case (Inr users)
      let ?ix = "findIndex (\<lambda>u. strict_eq (get_prop u ''id'') (get_prop req_user ''id'')) users"
      show ?thesis
      proof (cases "?ix = - 1")
        case True
        with Inr \<open>authenticateToken w tok f = Inr req_user\<close> show ?thesis
          by (simp add: update_profile_def)
      next
        case False
        with findIndex_range[of "\<lambda>u. strict_eq (get_prop u ''id'') (get_prop req_user ''id'')" users]
        obtain i where i: "?ix = int i" by (cases ?ix) auto
        from findIndex_found[OF i] have "i < length users" by simp
        with Inr \<open>authenticateToken w tok f = Inr req_user\<close> i show ?thesis
          by (auto simp: update_profile_def Let_def dest!: writeUsers_cases split: prod.splits option.splits)
      qed
    qed
  qed
  then show ?thesis by (auto dest: readUsers_accounts)
qed

lemma upload_file:
  "snd (upload w tok reqbody f) = f \<or> snd (upload w tok reqbody f) = Unparsable
   \<or> (\<exists>i<length (accounts f). \<exists>v. snd (upload w tok reqbody f) =
         Stored ((accounts f)[i := set_prop ''storageUsed'' v (accounts f ! i)]))"
proof -
  have "snd (upload w tok reqbody f) = f \<or> snd (upload w tok reqbody f) = Unparsable
   \<or> (\<exists>i users v. readUsers f = Inr users \<and> i < length users \<and> snd (upload w tok reqbody f) =
         Stored (users[i := set_prop ''storageUsed'' v (users ! i)]))"
  proof (cases "authenticateToken w tok f")
    case (Inl r)
    then show ?thesis by (simp add: upload_def)
  next
    case (Inr req_user)
    show ?thesis
    proof (cases "readUsers f")
      case (Inl e)
      with Inr show ?thesis by (simp add: upload_def Let_def)
    next
      case (Inr users)
      let ?ix = "findIndex (\<lambda>u. strict_eq (get_prop u ''id'') (get_prop req_user ''id'')) users"
      show ?thesis
      proof (cases "?ix = - 1")
        case True
        with Inr \<open>authenticateToken w tok f = Inr req_user\<close> show ?thesis
          by (simp add: upload_def Let_def)
      next
        case False
        with findIndex_range[of "\<lambda>u. strict_eq (get_prop u ''id'') (get_prop req_user ''id'')" users]
        obtain i where i: "?ix = int i" by (cases ?ix) auto
        from findIndex_found[OF i] have "i < length users" by simp
        with Inr \<open>authenticateToken w tok f = Inr req_user\<close> i show ?thesis
          by (auto simp: upload_def Let_def dest!: writeUsers_cases split: prod.splits option.splits)
      qed
    qed
  qed
  then show ?thesis by (auto dest: readUsers_accounts)
qed

lemma read_only_routes:
  "snd (login w reqbody f) = f" "snd (verify w tok f) = f" "snd (get_profile w tok f) = f"
  "snd (stats w tok f) = f" "snd (list_files w tok f) = f"
  by (auto simp: login_def verify_def get_profile_def stats_def list_files_def Let_def
      split: sum.splits option.splits)

lemma handle_file:
  "snd (handle w r f) = f \<or> snd (handle w r f) = Unparsable
   \<or> (\<exists>a b h. snd (handle w r f) = Stored (accounts f @ [newUser w a b h]))
   \<or> (\<exists>i<length (accounts f). \<exists>reqbody. snd (handle w r f) =
         Stored ((accounts f)[i := apply_updates reqbody (map fst reqbody) (accounts f ! i)]))
   \<or> (\<exists>i<length (accounts f). \<exists>v. snd (handle w r f) =
         Stored ((accounts f)[i := set_prop ''storageUsed'' v (accounts f ! i)]))"
proof (cases r)
  case (Register reqbody)
  then show ?thesis using register_file[of w reqbody f] by auto
next
  case (UpdateProfile tok reqbody)
  then show ?thesis using update_profile_file[of w tok reqbody f] by auto
next
  case (Upload tok reqbody)
  then show ?thesis using upload_file[of w tok reqbody f] by auto
qed (simp_all add: read_only_routes)

lemma handle_frame:
  assumes "k \<notin> set allowedUpdates" and "k \<noteq> ''storageUsed''"
  shows "snd (handle w r f) = Unparsable
       \<or> (\<forall>i<length (accounts f).
             i < length (accounts (snd (handle w r f)))
           \<and> get_prop (accounts (snd (handle w r f)) ! i) k = get_prop (accounts f ! i) k)"
  using handle_file[of w r f] assms
  by (elim disjE exE conjE)
     (simp_all add: nth_append nth_list_update apply_updates_other get_prop_set_prop)

lemma account_id_never_changes:
  "snd (handle w r f) = Unparsable
   \<or> (\<forall>i<length (accounts f).
         i < length (accounts (snd (handle w r f)))
       \<and> get_prop (accounts (snd (handle w r f)) ! i) ''id'' = get_prop (accounts f ! i) ''id'')"
  by (rule handle_frame) (simp_all add: allowedUpdates_def)

subsection \<open>The shape of stored accounts\<close>

lemma newUser_shape: "account_shape (newUser w a b h)"
  by (simp add: account_shape_def newUser_def account_keys_def get_prop_def)

lemma set_prop_shape:
  "account_shape u \<Longrightarrow> k \<in> set account_keys \<Longrightarrow> k \<noteq> ''storageLimit'' \<Longrightarrow> account_shape (set_prop k v u)"
  by (simp add: account_shape_def keys_set_prop get_prop_set_prop)

lemma apply_updates_shape: "account_shape u \<Longrightarrow> account_shape (apply_updates reqbody keys u)"
proof (induction keys arbitrary: u)
  case Nil
  then show ?case by simp
next
  case (Cons key keys)
  have "account_shape (if key \<in> set allowedUpdates then set_prop key (the (get_prop reqbody key)) u else u)"
    using Cons.prems by (auto simp: allowedUpdates_def account_keys_def intro!: set_prop_shape)
  then show ?case by (simp add: Cons.IH)
qed

lemma list_all_update: "list_all P xs \<Longrightarrow> P x \<Longrightarrow> list_all P (xs[i := x])"
  by (induction xs arbitrary: i) (auto split: nat.splits)

lemma handle_preserves_store_ok:
  assumes "store_ok f"
  shows "store_ok (snd (handle w r f))"
proof -
  from assms have all: "list_all account_shape (accounts f)"
    by (simp add: store_ok_def)
  have nth: "account_shape (accounts f ! i)" if "i < length (accounts f)" for i
    using all that by (simp add: list_all_length)
  from handle_file[of w r f] show ?thesis
  proof (elim disjE exE conjE)
    assume "snd (handle w r f) = f"
    with assms show ?thesis by simp
  next
    assume "snd (handle w r f) = Unparsable"
    then show ?thesis by (simp add: store_ok_def)
  next
    fix a b h
    assume "snd (handle w r f) = Stored (accounts f @ [newUser w a b h])"
    with all show ?thesis by (simp add: store_ok_def newUser_shape)
  next
    fix i reqbody
    assume "i < length (accounts f)"
      and "snd (handle w r f) =
         Stored ((accounts f)[i := apply_updates reqbody (map fst reqbody) (accounts f ! i)])"
    with all nth[of i] show ?thesis
      by (simp add: store_ok_def list_all_update apply_updates_shape)
  next
    fix i v
    assume "i < length (accounts f)"
      and "snd (handle w r f) = Stored ((accounts f)[i := set_prop ''storageUsed'' v (accounts f ! i)])"
    with all nth[of i] show ?thesis
      by (simp add: store_ok_def list_all_update set_prop_shape account_keys_def)
  qed
qed

lemma reachable_store_ok: "reachable f \<Longrightarrow> store_ok f"
  by (induction rule: reachable.induct) (simp_all add: handle_preserves_store_ok, simp add: store_ok_def)

subsection \<open>What a response shows, and the storage limit\<close>

lemma without_password_keys: "map fst (without_password u) = removeAll ''password'' (map fst u)"
  by (simp add: without_password_def delete_keys)

lemma response_user_origin:
  assumes "response_user (fst (handle w r f)) = Some u"
  shows "\<exists>a. u = without_password a \<and> (a \<in> set (accounts f) \<or> a \<in> set (accounts (snd (handle w r f))))"
proof (cases r)
  case (Register reqbody)
  with assms show ?thesis
    by (auto simp: register_def Let_def dest!: writeUsers_cases
        split: if_splits sum.splits option.splits prod.splits)
next
  case (Login reqbody)
  with assms show ?thesis
    by (auto simp: login_def Let_def find_Some_iff dest!: readUsers_accounts
        split: if_splits sum.splits option.splits)
next
  case (Verify tok)
  with assms show ?thesis
    by (auto simp: verify_def dest: authenticateToken_member authenticateToken_error split: sum.splits)
next
  case (GetProfile tok)
  with assms show ?thesis
    by (auto simp: get_profile_def dest: authenticateToken_member authenticateToken_error split: sum.splits)
next
  case (UpdateProfile tok reqbody)
  show ?thesis
  proof (cases "authenticateToken w tok f")
    case (Inl e)
    with assms UpdateProfile show ?thesis
      by (auto simp: update_profile_def dest: authenticateToken_error)
  next
    case (Inr req_user)
    show ?thesis
    proof (cases "readUsers f")
      case (Inl e)
      with assms UpdateProfile Inr show ?thesis by (simp add: update_profile_def)
    next
      case (Inr users)
      let ?ix = "findIndex (\<lambda>u. strict_eq (get_prop u ''id'') (get_prop req_user ''id'')) users"
      show ?thesis
      proof (cases "?ix = - 1")
        case True
        with assms UpdateProfile Inr \<open>authenticateToken w tok f = Inr req_user\<close> show ?thesis
          by (simp add: update_profile_def)
      next
        case False
        with findIndex_range[of "\<lambda>u. strict_eq (get_prop u ''id'') (get_prop req_user ''id'')" users]
        obtain i where i: "?ix = int i" by (cases ?ix) auto
        from findIndex_found[OF i] have il: "i < length users" by simp
        then have mem: "apply_updates reqbody (map fst reqbody) (users ! i)
            \<in> set (users[i := apply_updates reqbody (map fst reqbody) (users ! i)])"
          by (simp add: set_update_memI)
        from il assms UpdateProfile Inr \<open>authenticateToken w tok f = Inr req_user\<close> i
        have "u = without_password (apply_updates reqbody (map fst reqbody) (users ! i))
            \<and> snd (handle w r f) = Stored (users[i := apply_updates reqbody (map fst reqbody) (users ! i)])"
          by (auto simp: update_profile_def Let_def dest!: writeUsers_cases
              split: prod.splits option.splits)
        with mem show ?thesis
          by (intro exI[of _ "apply_updates reqbody (map fst reqbody) (users ! i)"]) simp
      qed
    qed
  qed
next
  case (Stats tok)
  with assms show ?thesis
    by (auto simp: stats_def dest: authenticateToken_error split: sum.splits)
next
  case (Upload tok reqbody)
  with assms show ?thesis
    by (auto simp: upload_def Let_def dest!: writeUsers_cases dest: authenticateToken_error
        split: if_splits sum.splits option.splits prod.splits)
next
  case (ListFiles tok)
  with assms show ?thesis
    by (auto simp: list_files_def dest: authenticateToken_error split: sum.splits)
next
  case Root
  with assms show ?thesis by simp
next
  case NoRoute
  with assms show ?thesis by simp
next
  case MalformedBody
  with assms show ?thesis by simp
qed

text \<open>
  C5. Whatever the request, the world and the file, a user object in the response has
  no \<^verbatim>\<open>password\<close> key. When the file is one the service can be in, the object has
  exactly the other eight keys of an account, so no \<^verbatim>\<open>passwordHash\<close> key either.
\<close>

theorem responses_never_carry_password:
  assumes "response_user (fst (handle w r f)) = Some u"
  shows "''password'' \<notin> fst ` set u
       \<and> (reachable f \<longrightarrow>
            ''passwordHash'' \<notin> fst ` set u
          \<and> map fst u = [''id'', ''username'', ''email'', ''storageUsed'', ''storageLimit'',
                         ''createdAt'', ''isActive'', ''settings''])"
proof -
  from response_user_origin[OF assms] obtain a where
    u: "u = without_password a"
    and a: "a \<in> set (accounts f) \<or> a \<in> set (accounts (snd (handle w r f)))"
    by blast
  have no_pw: "''password'' \<notin> fst ` set u"
    by (simp add: u without_password_def delete_notin_dom)
  have keys: "map fst u = [''id'', ''username'', ''email'', ''storageUsed'', ''storageLimit'',
                         ''createdAt'', ''isActive'', ''settings'']" if "reachable f"
  proof -
    from that have "store_ok f" by (rule reachable_store_ok)
    moreover from this have "store_ok (snd (handle w r f))" by (rule handle_preserves_store_ok)
    ultimately have "account_shape a"
      using a by (auto simp: store_ok_def list_all_iff)
    then show ?thesis
      by (simp add: u without_password_keys account_shape_def account_keys_def)
  qed
  have "''passwordHash'' \<notin> fst ` set u" if "reachable f"
  proof -
    have "fst ` set u = set (map fst u)" by simp
    also have "\<dots> = set [''id'', ''username'', ''email'', ''storageUsed'', ''storageLimit'',
                         ''createdAt'', ''isActive'', ''settings'']"
      using keys[OF that] by simp
    finally show ?thesis by simp
  qed
  with no_pw keys show ?thesis by blast
qed

theorem responses_never_carry_password_witness:
  "response_user (fst (handle example_world (Verify (Some ana_token)) (Stored [ana_account])))
     = Some (without_password ana_account)
   \<and> ''password'' \<notin> fst ` set (without_password ana_account)
   \<and> ''passwordHash'' \<notin> fst ` set (without_password ana_account)"
proof -
  have e: "response_user (fst (handle example_world (Verify (Some ana_token)) (Stored [ana_account])))
     = Some (without_password ana_account)"
    by (simp add: verify_def ana_auth)
  from responses_never_carry_password[OF e] reachable_ana e show ?thesis by blast
qed

text \<open>
  C10. In every file the service can be in, every account's \<open>storageLimit\<close> is
  1099511627776. One request, on any file at all, either loses the file to a failed
  write or leaves every account where it was with the \<open>storageLimit\<close> it had. And the
  limit the stats route divides by is 1099511627776, never zero.
\<close>

theorem storageLimit_never_changes:
  "(reachable f \<longrightarrow>
      list_all (\<lambda>u. get_prop u ''storageLimit'' = Some (JNum 1099511627776)) (accounts f))
   \<and> (snd (handle w r f) = Unparsable
       \<or> (\<forall>i<length (accounts f).
             i < length (accounts (snd (handle w r f)))
           \<and> get_prop (accounts (snd (handle w r f)) ! i) ''storageLimit''
               = get_prop (accounts f ! i) ''storageLimit''))
   \<and> (reachable f \<and> fst (stats w tok f) = (200, StatsBody used limit)
        \<longrightarrow> limit = Some (JNum 1099511627776) \<and> limit \<noteq> Some (JNum 0))"
proof (intro conjI impI)
  assume "reachable f"
  then have "store_ok f" by (rule reachable_store_ok)
  then show "list_all (\<lambda>u. get_prop u ''storageLimit'' = Some (JNum 1099511627776)) (accounts f)"
    by (simp add: store_ok_def list_all_iff account_shape_def)
next
  show "snd (handle w r f) = Unparsable
       \<or> (\<forall>i<length (accounts f).
             i < length (accounts (snd (handle w r f)))
           \<and> get_prop (accounts (snd (handle w r f)) ! i) ''storageLimit''
               = get_prop (accounts f ! i) ''storageLimit'')"
    by (rule handle_frame) (simp_all add: allowedUpdates_def)
next
  assume a: "reachable f \<and> fst (stats w tok f) = (200, StatsBody used limit)"
  then have ok: "store_ok f" by (simp add: reachable_store_ok)
  from a obtain req_user where au: "authenticateToken w tok f = Inr req_user"
    and l: "limit = get_prop req_user ''storageLimit''"
    by (auto simp: stats_def dest: authenticateToken_error split: sum.splits)
  from authenticateToken_member[OF au] ok have "account_shape req_user"
    by (simp add: store_ok_def list_all_iff)
  with l show "limit = Some (JNum 1099511627776)" by (simp add: account_shape_def)
  then show "limit \<noteq> Some (JNum 0)" by simp
qed

theorem storageLimit_never_changes_witness:
  "list_all (\<lambda>u. get_prop u ''storageLimit'' = Some (JNum 1099511627776)) (accounts (Stored [ana_account]))
   \<and> get_prop (accounts (snd (handle example_world
                  (UpdateProfile (Some ana_token) [(''storageLimit'', JNum 0)]) (Stored [ana_account]))) ! 0)
        ''storageLimit'' = Some (JNum 1099511627776)
   \<and> fst (stats example_world (Some ana_token) (Stored [ana_account]))
        = (200, StatsBody (Some (JNum 0)) (Some (JNum 1099511627776)))"
proof -
  let ?r = "UpdateProfile (Some ana_token) [(''storageLimit'', JNum 0)]"
  note t = storageLimit_never_changes[of "Stored [ana_account]" example_world ?r "Some ana_token"
      "Some (JNum 0)" "Some (JNum 1099511627776)"]
  have s: "fst (stats example_world (Some ana_token) (Stored [ana_account]))
        = (200, StatsBody (Some (JNum 0)) (Some (JNum 1099511627776)))"
    by (simp add: stats_def ana_auth ana_storage)
  have "snd (handle example_world ?r (Stored [ana_account])) \<noteq> Unparsable"
    by (simp add: update_profile_def ana_auth readUsers_ana findIndex_ana[simplified] writeUsers_def
        example_world_sel Let_def)
  with t reachable_ana s show ?thesis by (simp add: ana_storage)
qed

end
